theory Spec2Isabelle
  imports Main "HOL-Library.Word" "HOL-Library.Monad_Syntax"
begin

section \<open>The window base class of the GUI toolkit (window.cpp)\<close>

text \<open>
  The development embeds \<^verbatim>\<open>window_t\<close> as defined in \<^verbatim>\<open>src/guiapi/src/window.cpp\<close>.
  Windows are C++ objects reached through raw pointers; they are modelled by a store
  from addresses to window objects, the static \<^verbatim>\<open>focused_ptr\<close> by a field of the global
  state, and the null pointer by \<open>None\<close>.  Calls into collaborators that are outside this
  file (the screen manager, the GUI timers, the display driver, the global repaint request,
  the debugging \<^verbatim>\<open>EventLock\<close>) are recorded, in order, in a list of effects.
\<close>

subsection \<open>Data\<close>

type_synonym addr = nat
type_synonym color_t = "32 word"

text \<open>A \<^verbatim>\<open>color_scheme\<close> is used through \<^verbatim>\<open>Get(focused, shadowed)\<close> only.\<close>

type_synonym color_scheme = "bool \<Rightarrow> bool \<Rightarrow> color_t"

datatype is_closed_on_click_t = no | yes

datatype win_type_t = normal | dialog | popup | strong_dialog

datatype GUI_event_t =
  CLICK | FOCUS0 | FOCUS1 | ENC_CHANGE | ENC_UP | ENC_DN | BTN_DN | BTN_UP | HOLD

text \<open>
  \<^verbatim>\<open>Rect16\<close> is declared in a header that window.cpp includes.  Its operations are taken
  as parameters: \<open>'r\<close> is the type of rectangles, and the record below holds the member
  functions that window.cpp calls.  \<open>Rect16_default\<close> is the default argument of
  \<^verbatim>\<open>Invalidate\<close> and \<^verbatim>\<open>Validate\<close>, which window.cpp calls without argument; where a property
  needs this rectangle to be empty, it says so.  In \<open>HasIntersection\<close>, \<open>Contain\<close>,
  \<open>Intersection\<close> and \<open>Transform\<close> the first argument is the object, the second the argument
  of the call.
\<close>

record 'r Rect16_ops =
  Rect16_default :: 'r
  IsEmpty :: "'r \<Rightarrow> bool"
  HasIntersection :: "'r \<Rightarrow> 'r \<Rightarrow> bool"
  Contain :: "'r \<Rightarrow> 'r \<Rightarrow> bool"
  Intersection :: "'r \<Rightarrow> 'r \<Rightarrow> 'r"
  Transform :: "'r \<Rightarrow> 'r \<Rightarrow> 'r"
  Width :: "'r \<Rightarrow> 16 word"
  Height :: "'r \<Rightarrow> 16 word"

text \<open>The bit field \<^verbatim>\<open>flags\<close>, with the members that the functions embedded below read or write.\<close>

record window_flags =
  win_type :: win_type_t
  visible :: bool
  enabled :: bool
  invalid :: bool
  timer :: bool
  hidden_behind_dialog :: bool
  shadow :: bool
  enforce_capture_when_not_visible :: bool
  has_relative_subwins :: bool
  color_scheme_background :: bool
  close_on_click :: is_closed_on_click_t

record 'r window_t =
  parent :: "addr option"
  next_win :: "addr option"
  rect :: 'r
  flags :: window_flags
  color_back :: color_t
  pBackColorScheme :: "color_scheme option"

datatype 'r effect =
  GuiInvalidate
  | ScreensClose
  | ScreensResetTimeout
  | TimersDeleteByWindow addr
  | DisplayFillRect 'r color_t
  | EventLock string "addr option" GUI_event_t

text \<open>
  The global state.  \<open>subwins\<close> stands for the data that classes derived from \<^verbatim>\<open>window_t\<close>
  keep about their sub-windows (the child list of a frame); \<^verbatim>\<open>window_t\<close> itself has none.
\<close>

record ('r, 'x) gui =
  wins :: "addr \<Rightarrow> 'r window_t"
  focused_ptr :: "addr option"
  effects :: "'r effect list"
  subwins :: 'x

text \<open>
  \<^verbatim>\<open>registerSubWin\<close> and \<^verbatim>\<open>unregisterSubWin\<close> are virtual and do nothing in \<^verbatim>\<open>window_t\<close>
  (``window does not support subwindow elements, but window_frame does'').  The overriding
  implementation of the object they are called on is a parameter, acting on \<open>subwins\<close>;
  its first argument is the object, its second the sub-window.
\<close>

record 'x overrides =
  v_registerSubWin :: "addr \<Rightarrow> addr \<Rightarrow> 'x \<Rightarrow> bool \<times> 'x"
  v_unregisterSubWin :: "addr \<Rightarrow> addr \<Rightarrow> 'x \<Rightarrow> 'x"

subsection \<open>Flags and queries\<close>

definition the_flags :: "('r, 'x) gui \<Rightarrow> addr \<Rightarrow> window_flags" where
  "the_flags s this = flags (wins s this)"

definition set_flags :: "(window_flags \<Rightarrow> window_flags) \<Rightarrow> ('r, 'x) gui \<Rightarrow> addr \<Rightarrow> ('r, 'x) gui" where
  "set_flags f s this = s\<lparr>wins := (wins s)(this := (wins s this)\<lparr>flags := f (flags (wins s this))\<rparr>)\<rparr>"

definition emit :: "'r effect \<Rightarrow> ('r, 'x) gui \<Rightarrow> ('r, 'x) gui" where
  "emit e s = s\<lparr>effects := effects s @ [e]\<rparr>"

definition gui_invalidate :: "('r, 'x) gui \<Rightarrow> ('r, 'x) gui" where
  "gui_invalidate s = emit GuiInvalidate s"

definition Screens_Close :: "('r, 'x) gui \<Rightarrow> ('r, 'x) gui" where
  "Screens_Close s = emit ScreensClose s"

definition Screens_ResetTimeout :: "('r, 'x) gui \<Rightarrow> ('r, 'x) gui" where
  "Screens_ResetTimeout s = emit ScreensResetTimeout s"

definition gui_timers_delete_by_window :: "('r, 'x) gui \<Rightarrow> addr \<Rightarrow> ('r, 'x) gui" where
  "gui_timers_delete_by_window s this = emit (TimersDeleteByWindow this) s"

definition GetFocusedWindow :: "('r, 'x) gui \<Rightarrow> addr option" where
  "GetFocusedWindow s = focused_ptr s"

definition ResetFocusedWindow :: "('r, 'x) gui \<Rightarrow> ('r, 'x) gui" where
  "ResetFocusedWindow s = s\<lparr>focused_ptr := None\<rparr>"

definition IsVisible :: "('r, 'x) gui \<Rightarrow> addr \<Rightarrow> bool" where
  "IsVisible s this = (visible (the_flags s this) \<and> \<not> hidden_behind_dialog (the_flags s this))"

definition HasVisibleFlag :: "('r, 'x) gui \<Rightarrow> addr \<Rightarrow> bool" where
  "HasVisibleFlag s this = visible (the_flags s this)"

definition IsHiddenBehindDialog :: "('r, 'x) gui \<Rightarrow> addr \<Rightarrow> bool" where
  "IsHiddenBehindDialog s this = hidden_behind_dialog (the_flags s this)"

definition IsEnabled :: "('r, 'x) gui \<Rightarrow> addr \<Rightarrow> bool" where
  "IsEnabled s this = enabled (the_flags s this)"

definition IsInvalid :: "('r, 'x) gui \<Rightarrow> addr \<Rightarrow> bool" where
  "IsInvalid s this = invalid (the_flags s this)"

definition IsFocused :: "('r, 'x) gui \<Rightarrow> addr \<Rightarrow> bool" where
  "IsFocused s this = (GetFocusedWindow s = Some this)"

definition IsShadowed :: "('r, 'x) gui \<Rightarrow> addr \<Rightarrow> bool" where
  "IsShadowed s this = (shadow (the_flags s this) = True)"

definition GetParent :: "('r, 'x) gui \<Rightarrow> addr \<Rightarrow> addr option" where
  "GetParent s this = parent (wins s this)"

definition Enable :: "('r, 'x) gui \<Rightarrow> addr \<Rightarrow> ('r, 'x) gui" where
  "Enable s this = set_flags (\<lambda>f. f\<lparr>enabled := True\<rparr>) s this"

definition Disable :: "('r, 'x) gui \<Rightarrow> addr \<Rightarrow> ('r, 'x) gui" where
  "Disable s this = set_flags (\<lambda>f. f\<lparr>enabled := False\<rparr>) s this"

text \<open>
  \<^verbatim>\<open>SetRelativeSubwins\<close> is an inline member of the header; it is taken to set the flag
  that \<^verbatim>\<open>RegisterSubWin\<close> propagates with it.
\<close>

definition SetRelativeSubwins :: "('r, 'x) gui \<Rightarrow> addr \<Rightarrow> ('r, 'x) gui" where
  "SetRelativeSubwins s this = set_flags (\<lambda>f. f\<lparr>has_relative_subwins := True\<rparr>) s this"

subsection \<open>Validation and invalidation\<close>

definition invalidate :: "('r, 'x) gui \<Rightarrow> addr \<Rightarrow> 'r \<Rightarrow> ('r, 'x) gui" where
  "invalidate s this validation_rect = set_flags (\<lambda>f. f\<lparr>invalid := True\<rparr>) s this"

definition validate :: "('r, 'x) gui \<Rightarrow> addr \<Rightarrow> 'r \<Rightarrow> ('r, 'x) gui" where
  "validate s this validation_rect = s"

definition Validate :: "'r Rect16_ops \<Rightarrow> ('r, 'x) gui \<Rightarrow> addr \<Rightarrow> 'r \<Rightarrow> ('r, 'x) gui" where
  "Validate R s this validation_rect =
     (if IsEmpty R validation_rect \<or> HasIntersection R (rect (wins s this)) validation_rect
      then validate (set_flags (\<lambda>f. f\<lparr>invalid := False\<rparr>) s this) this validation_rect
      else s)"

definition Invalidate :: "'r Rect16_ops \<Rightarrow> ('r, 'x) gui \<Rightarrow> addr \<Rightarrow> 'r \<Rightarrow> ('r, 'x) gui" where
  "Invalidate R s this invalidation_rect =
     (if IsEmpty R invalidation_rect \<or> HasIntersection R (rect (wins s this)) invalidation_rect
      then gui_invalidate (invalidate s this invalidation_rect)
      else s)"

definition ShowAfterDialog :: "'r Rect16_ops \<Rightarrow> ('r, 'x) gui \<Rightarrow> addr \<Rightarrow> ('r, 'x) gui" where
  "ShowAfterDialog R s this =
     (if hidden_behind_dialog (the_flags s this)
      then Invalidate R (set_flags (\<lambda>f. f\<lparr>hidden_behind_dialog := False\<rparr>) s this) this
             (Rect16_default R)
      else s)"

definition HideBehindDialog :: "'r Rect16_ops \<Rightarrow> ('r, 'x) gui \<Rightarrow> addr \<Rightarrow> ('r, 'x) gui" where
  "HideBehindDialog R s this =
     (if \<not> hidden_behind_dialog (the_flags s this)
      then Invalidate R (set_flags (\<lambda>f. f\<lparr>hidden_behind_dialog := True\<rparr>) s this) this
             (Rect16_default R)
      else s)"

subsection \<open>Events\<close>

text \<open>
  \<^verbatim>\<open>WindowEvent\<close> builds the \<^verbatim>\<open>EventLock\<close> and calls the virtual \<^verbatim>\<open>windowEvent\<close>, which for
  an unhandled click calls \<^verbatim>\<open>WindowEvent\<close> of the parent.  The two are one recursion along
  the parent pointers; nothing in the code bounds it, so it is a partial function, with
  \<open>None\<close> for a call that does not return.  \<open>windowEvent\<close> below is the body of the virtual
  function, and \<open>WindowEvent_src\<close> shows that \<open>WindowEvent\<close> is the lock followed by it.
\<close>

partial_function (option) WindowEvent ::
  "('r, 'x) gui \<Rightarrow> addr \<Rightarrow> addr option \<Rightarrow> GUI_event_t \<Rightarrow> int \<Rightarrow> ('r, 'x) gui option" where
  "WindowEvent s this sender event param =
     (let s1 = emit (EventLock ''WindowEvent via public'' sender event) s in
      if event = CLICK \<and> parent (wins s1 this) \<noteq> None then
        if close_on_click (flags (wins s1 this)) = yes then Some (Screens_Close s1)
        else WindowEvent s1 (the (parent (wins s1 this))) (Some this) event param
      else Some s1)"

definition windowEvent ::
  "('r, 'x) gui \<Rightarrow> addr \<Rightarrow> addr option \<Rightarrow> GUI_event_t \<Rightarrow> int \<Rightarrow> ('r, 'x) gui option" where
  "windowEvent s this sender event param =
     (if event = CLICK \<and> parent (wins s this) \<noteq> None then
        if close_on_click (the_flags s this) = yes then Some (Screens_Close s)
        else WindowEvent s (the (parent (wins s this))) (Some this) event param
      else Some s)"

subsection \<open>Focus\<close>

definition SetFocus :: "'r Rect16_ops \<Rightarrow> ('r, 'x) gui \<Rightarrow> addr \<Rightarrow> ('r, 'x) gui option" where
  "SetFocus R s this =
     (if \<not> IsVisible s this \<or> \<not> enabled (the_flags s this) then Some s
      else if focused_ptr s = Some this then Some s
      else do {
        s1 \<leftarrow> (case focused_ptr s of
                None \<Rightarrow> Some s
              | Some f \<Rightarrow> WindowEvent (Invalidate R s f (Rect16_default R)) f (Some f) FOCUS0 0);
        let s2 = s1\<lparr>focused_ptr := Some this\<rparr>;
        let s3 = Invalidate R s2 this (Rect16_default R);
        s4 \<leftarrow> WindowEvent s3 this (Some this) FOCUS1 0;
        Some (gui_invalidate s4)
      })"

subsection \<open>Rectangles in the window tree\<close>

text \<open>
  \<^verbatim>\<open>GetRect\<close> calls \<^verbatim>\<open>TransformRect\<close> of the parent, which calls \<^verbatim>\<open>GetRect\<close> of the parent:
  again one recursion along the parent pointers, over the store of windows.
\<close>

partial_function (option) GetRect ::
  "'r Rect16_ops \<Rightarrow> (addr \<Rightarrow> 'r window_t) \<Rightarrow> addr \<Rightarrow> 'r option" where
  "GetRect R W this =
     (case parent (W this) of
        None \<Rightarrow> Some (rect (W this))
      | Some p \<Rightarrow> do {
          this_rect \<leftarrow> GetRect R W p;
          Some (if has_relative_subwins (flags (W p))
                then Transform R (rect (W this)) this_rect
                else Intersection R (rect (W this)) this_rect)
        })"

definition TransformRect ::
  "'r Rect16_ops \<Rightarrow> (addr \<Rightarrow> 'r window_t) \<Rightarrow> addr \<Rightarrow> 'r \<Rightarrow> 'r option" where
  "TransformRect R W this rc = do {
     this_rect \<leftarrow> GetRect R W this;
     Some (if has_relative_subwins (flags (W this))
           then Transform R rc this_rect
           else Intersection R rc this_rect)
   }"

definition GetRectWithoutTransformation :: "('r, 'x) gui \<Rightarrow> addr \<Rightarrow> 'r" where
  "GetRectWithoutTransformation s this = rect (wins s this)"

subsection \<open>Drawing\<close>

definition GetBackColor :: "('r, 'x) gui \<Rightarrow> addr \<Rightarrow> color_t" where
  "GetBackColor s this =
     (case pBackColorScheme (wins s this) of
        Some scheme \<Rightarrow>
          if color_scheme_background (the_flags s this)
          then scheme (IsFocused s this) (IsShadowed s this)
          else color_back (wins s this)
      | None \<Rightarrow> color_back (wins s this))"

definition unconditionalDraw :: "'r Rect16_ops \<Rightarrow> ('r, 'x) gui \<Rightarrow> addr \<Rightarrow> ('r, 'x) gui option" where
  "unconditionalDraw R s this = do {
     r \<leftarrow> GetRect R (wins s) this;
     Some (emit (DisplayFillRect r (GetBackColor s this)) s)
   }"

definition draw :: "'r Rect16_ops \<Rightarrow> ('r, 'x) gui \<Rightarrow> addr \<Rightarrow> ('r, 'x) gui option" where
  "draw R s this =
     (if IsInvalid s this \<and> Width R (rect (wins s this)) \<noteq> 0 \<and> Height R (rect (wins s this)) \<noteq> 0
      then do {
        s1 \<leftarrow> (if IsVisible s this then unconditionalDraw R s this else Some s);
        Some (Validate R s1 this (Rect16_default R))
      }
      else Some s)"

definition Draw :: "'r Rect16_ops \<Rightarrow> ('r, 'x) gui \<Rightarrow> addr \<Rightarrow> ('r, 'x) gui option" where
  "Draw R s this = draw R s this"

subsection \<open>Sub-windows\<close>

definition registerSubWin :: "addr \<Rightarrow> addr \<Rightarrow> 'x \<Rightarrow> bool \<times> 'x" where
  "registerSubWin this win x = (False, x)"

definition unregisterSubWin :: "addr \<Rightarrow> addr \<Rightarrow> 'x \<Rightarrow> 'x" where
  "unregisterSubWin this win x = x"

definition window_t_overrides :: "'x overrides" where
  "window_t_overrides = \<lparr>v_registerSubWin = registerSubWin, v_unregisterSubWin = unregisterSubWin\<rparr>"

definition addInvalidationRect :: "'r Rect16_ops \<Rightarrow> ('r, 'x) gui \<Rightarrow> addr \<Rightarrow> 'r \<Rightarrow> ('r, 'x) gui" where
  "addInvalidationRect R s this rc =
     (if \<not> IsEmpty R (rect (wins s this)) then Invalidate R s this (Rect16_default R) else s)"

definition RegisterSubWin ::
  "'x overrides \<Rightarrow> 'r Rect16_ops \<Rightarrow> ('r, 'x) gui \<Rightarrow> addr \<Rightarrow> addr \<Rightarrow> (bool \<times> ('r, 'x) gui) option" where
  "RegisterSubWin V R s this win = do {
     this_rect \<leftarrow> GetRect R (wins s) this;
     win_rect \<leftarrow> GetRect R (wins s) win;
     if \<not> Contain R this_rect win_rect then Some (False, s)
     else do {
       let s1 = (if has_relative_subwins (the_flags s this) then SetRelativeSubwins s win else s);
       let s2 = Screens_ResetTimeout s1;
       let (ret, x) = v_registerSubWin V this win (subwins s2);
       Some (ret, s2\<lparr>subwins := x\<rparr>)
     }
   }"

definition UnregisterSubWin ::
  "'x overrides \<Rightarrow> 'r Rect16_ops \<Rightarrow> ('r, 'x) gui \<Rightarrow> addr \<Rightarrow> addr \<Rightarrow> ('r, 'x) gui option" where
  "UnregisterSubWin V R s this win =
     (if GetParent s win \<noteq> Some this then Some s
      else do {
        win_rect \<leftarrow> GetRect R (wins s) win;
        let s1 = addInvalidationRect R s this win_rect;
        let s2 = s1\<lparr>subwins := v_unregisterSubWin V this win (subwins s1)\<rparr>;
        Some (Screens_ResetTimeout s2)
      })"

subsection \<open>Construction and destruction\<close>

text \<open>
  \<^verbatim>\<open>flags(0)\<close> clears the whole bit field; the constructor then stores the type and the
  click policy, so the enumerators that the zero bits stand for do not matter.
\<close>

definition flags_zero :: window_flags where
  "flags_zero = \<lparr>win_type = normal, visible = False, enabled = False, invalid = False,
     timer = False, hidden_behind_dialog = False, shadow = False,
     enforce_capture_when_not_visible = False, has_relative_subwins = False,
     color_scheme_background = False, close_on_click = no\<rparr>"

text \<open>
  The constructor up to and including its call of \<^verbatim>\<open>Invalidate()\<close>.  \<open>ColorBack\<close> is
  \<^verbatim>\<open>GuiDefaults::ColorBack\<close>; \<^verbatim>\<open>pBackColorScheme\<close> is not initialised and keeps what the
  memory held.
\<close>

definition window_t_init ::
  "'r Rect16_ops \<Rightarrow> color_t \<Rightarrow> ('r, 'x) gui \<Rightarrow> addr \<Rightarrow> addr option \<Rightarrow> 'r \<Rightarrow> win_type_t \<Rightarrow>
   is_closed_on_click_t \<Rightarrow> ('r, 'x) gui" where
  "window_t_init R ColorBack s this par rc type close =
     (let s1 = s\<lparr>wins := (wins s)(this := \<lparr>parent = par, next_win = None, rect = rc,
                  flags = flags_zero, color_back = ColorBack,
                  pBackColorScheme = pBackColorScheme (wins s this)\<rparr>)\<rparr>;
          s2 = set_flags (\<lambda>f. f\<lparr>win_type := type\<rparr>) s1 this;
          s3 = set_flags (\<lambda>f. f\<lparr>close_on_click := close\<rparr>) s2 this;
          s4 = (if close = yes then Enable s3 this else Disable s3 this);
          s5 = set_flags (\<lambda>f. f\<lparr>visible := True\<rparr>) s4 this
      in Invalidate R s5 this (Rect16_default R))"

definition window_t_ctor ::
  "'x overrides \<Rightarrow> 'r Rect16_ops \<Rightarrow> color_t \<Rightarrow> ('r, 'x) gui \<Rightarrow> addr \<Rightarrow> addr option \<Rightarrow> 'r \<Rightarrow>
   win_type_t \<Rightarrow> is_closed_on_click_t \<Rightarrow> ('r, 'x) gui option" where
  "window_t_ctor V R ColorBack s this par rc type close =
     (let s6 = window_t_init R ColorBack s this par rc type close in
      case par of
        None \<Rightarrow> Some s6
      | Some p \<Rightarrow> map_option snd (RegisterSubWin V R s6 p this))"

definition window_t_dtor ::
  "'x overrides \<Rightarrow> 'r Rect16_ops \<Rightarrow> ('r, 'x) gui \<Rightarrow> addr \<Rightarrow> ('r, 'x) gui option" where
  "window_t_dtor V R s this =
     (let s1 = gui_timers_delete_by_window s this;
          s2 = (if GetFocusedWindow s1 = Some this then s1\<lparr>focused_ptr := None\<rparr> else s1)
      in do {
        s3 \<leftarrow> (case GetParent s2 this of
                None \<Rightarrow> Some s2
              | Some p \<Rightarrow> UnregisterSubWin V R s2 p this);
        Some (Screens_ResetTimeout s3)
      })"

subsection \<open>Well-formed parent chains\<close>

text \<open>
  \<open>root_within n W a\<close>: following the parent pointers from \<open>a\<close> in the store \<open>W\<close> reaches a
  window without parent (the root of a screen) after at most \<open>n\<close> steps.
\<close>

fun root_within :: "nat \<Rightarrow> (addr \<Rightarrow> 'r window_t) \<Rightarrow> addr \<Rightarrow> bool" where
  "root_within 0 W a = (parent (W a) = None)"
| "root_within (Suc n) W a = (case parent (W a) of None \<Rightarrow> True | Some p \<Rightarrow> root_within n W p)"

text \<open>
  \<open>click_chain n W a sender\<close>: the effects of a click that window \<open>a\<close> receives from
  \<open>sender\<close>, as a chain along the parent pointers.  Every window on the way records the
  event.  A window with a parent closes the screen if its policy is \<open>yes\<close>, which ends the
  chain, and otherwise passes the click to its parent with itself as the sender; a window
  without parent ends the chain.  \<open>n\<close> bounds the number of re-sent events.
\<close>

fun click_chain :: "nat \<Rightarrow> (addr \<Rightarrow> 'r window_t) \<Rightarrow> addr \<Rightarrow> addr option \<Rightarrow> 'r effect list" where
  "click_chain 0 W a sender =
     EventLock ''WindowEvent via public'' sender CLICK #
       (case parent (W a) of
          None \<Rightarrow> []
        | Some p \<Rightarrow> if close_on_click (flags (W a)) = yes then [ScreensClose] else [])"
| "click_chain (Suc n) W a sender =
     EventLock ''WindowEvent via public'' sender CLICK #
       (case parent (W a) of
          None \<Rightarrow> []
        | Some p \<Rightarrow>
            if close_on_click (flags (W a)) = yes then [ScreensClose]
            else click_chain n W p (Some a))"

subsection \<open>A concrete instance\<close>

text \<open>
  Modelled from the spec: \<^verbatim>\<open>Rect16\<close>, whose header and implementation are not under src/.
  The spec speaks of a rectangle that is empty (zero area), that intersects another one,
  that is fully contained in another one, and of parent-relative coordinates.  This instance
  of the parameter \<open>Rect16_ops\<close> is used to run the functions on concrete windows; the
  general theorems hold for every instance.
\<close>

record rect16 =
  rx :: int
  ry :: int
  rw :: "16 word"
  rh :: "16 word"

definition r16_IsEmpty :: "rect16 \<Rightarrow> bool" where
  "r16_IsEmpty r = (rw r = 0 \<or> rh r = 0)"

definition r16_HasIntersection :: "rect16 \<Rightarrow> rect16 \<Rightarrow> bool" where
  "r16_HasIntersection a b =
     (\<not> r16_IsEmpty a \<and> \<not> r16_IsEmpty b
      \<and> rx a < rx b + uint (rw b) \<and> rx b < rx a + uint (rw a)
      \<and> ry a < ry b + uint (rh b) \<and> ry b < ry a + uint (rh a))"

definition r16_Contain :: "rect16 \<Rightarrow> rect16 \<Rightarrow> bool" where
  "r16_Contain a b =
     (rx a \<le> rx b \<and> rx b + uint (rw b) \<le> rx a + uint (rw a)
      \<and> ry a \<le> ry b \<and> ry b + uint (rh b) \<le> ry a + uint (rh a))"

definition r16_default :: rect16 where
  "r16_default = \<lparr>rx = 0, ry = 0, rw = 0, rh = 0\<rparr>"

definition r16_Intersection :: "rect16 \<Rightarrow> rect16 \<Rightarrow> rect16" where
  "r16_Intersection a b =
     (if r16_HasIntersection a b
      then \<lparr>rx = max (rx a) (rx b), ry = max (ry a) (ry b),
            rw = word_of_int (min (rx a + uint (rw a)) (rx b + uint (rw b))
                                  - max (rx a) (rx b)),
            rh = word_of_int (min (ry a + uint (rh a)) (ry b + uint (rh b))
                                   - max (ry a) (ry b))\<rparr>
      else r16_default)"

definition r16_Transform :: "rect16 \<Rightarrow> rect16 \<Rightarrow> rect16" where
  "r16_Transform rc frame = rc\<lparr>rx := rx rc + rx frame, ry := ry rc + ry frame\<rparr>"

definition rect16_ops :: "rect16 Rect16_ops" where
  "rect16_ops = \<lparr>Rect16_default = r16_default, IsEmpty = r16_IsEmpty,
     HasIntersection = r16_HasIntersection, Contain = r16_Contain,
     Intersection = r16_Intersection, Transform = r16_Transform,
     Width = rw, Height = rh\<rparr>"

text \<open>
  Modelled from the spec: the child list of a frame (\<^verbatim>\<open>window_frame_t\<close> is not under src/).
  The spec says that a registered widget is in its parent's child list and that
  unregistering removes it; the list is kept here as pairs (parent, child).
\<close>

definition frame_registerSubWin :: "addr \<Rightarrow> addr \<Rightarrow> (addr \<times> addr) list \<Rightarrow> bool \<times> (addr \<times> addr) list" where
  "frame_registerSubWin this win x = (True, x @ [(this, win)])"

definition frame_unregisterSubWin :: "addr \<Rightarrow> addr \<Rightarrow> (addr \<times> addr) list \<Rightarrow> (addr \<times> addr) list" where
  "frame_unregisterSubWin this win x = removeAll (this, win) x"

definition frame_overrides :: "(addr \<times> addr) list overrides" where
  "frame_overrides =
     \<lparr>v_registerSubWin = frame_registerSubWin, v_unregisterSubWin = frame_unregisterSubWin\<rparr>"

text \<open>
  A small screen: window 10 is the root, 11, 13 and 14 are its children, 12 is a child
  of 11.  Window 13 closes on click, window 12 is dirty, window 14 is hidden and dirty,
  window 11 holds the focus.  Every other address holds a window without parent.
\<close>

definition example_window ::
  "addr option \<Rightarrow> rect16 \<Rightarrow> bool \<Rightarrow> bool \<Rightarrow> bool \<Rightarrow> is_closed_on_click_t \<Rightarrow> rect16 window_t" where
  "example_window par rc vis en dirty close =
     \<lparr>parent = par, next_win = None, rect = rc,
      flags = flags_zero\<lparr>visible := vis, enabled := en, invalid := dirty, close_on_click := close\<rparr>,
      color_back = 0, pBackColorScheme = None\<rparr>"

definition example_wins :: "addr \<Rightarrow> rect16 window_t" where
  "example_wins =
     (\<lambda>a. example_window None r16_default False False False no)
     (10 := example_window None \<lparr>rx = 0, ry = 0, rw = 240, rh = 320\<rparr> True True False no,
      11 := example_window (Some 10) \<lparr>rx = 10, ry = 10, rw = 100, rh = 50\<rparr> True True False no,
      12 := example_window (Some 11) \<lparr>rx = 20, ry = 20, rw = 50, rh = 10\<rparr> True True True no,
      13 := example_window (Some 10) \<lparr>rx = 10, ry = 70, rw = 100, rh = 20\<rparr> True True False yes,
      14 := example_window (Some 10) \<lparr>rx = 10, ry = 100, rw = 100, rh = 20\<rparr> False False True no)"

definition example_gui :: "(rect16, (addr \<times> addr) list) gui" where
  "example_gui = \<lparr>wins = example_wins, focused_ptr = Some 11, effects = [],
     subwins = [(10, 11), (11, 12), (10, 13), (10, 14)]\<rparr>"

section \<open>Properties\<close>

subsection \<open>Auxiliary facts\<close>

lemma WindowEvent_src:
  "WindowEvent s this sender event param =
     windowEvent (emit (EventLock ''WindowEvent via public'' sender event) s) this sender event param"
  by (subst WindowEvent.simps) (auto simp add: windowEvent_def Let_def the_flags_def)

lemma GetRect_src:
  "GetRect R W this =
     (case parent (W this) of
        None \<Rightarrow> Some (rect (W this))
      | Some p \<Rightarrow> TransformRect R W p (rect (W this)))"
  by (subst GetRect.simps) (simp add: TransformRect_def split: option.split)


text \<open>The definitions of the concrete instance, for evaluation.\<close>

lemmas ex_defs = example_gui_def example_wins_def example_window_def flags_zero_def
  rect16_ops_def r16_default_def r16_IsEmpty_def r16_HasIntersection_def r16_Contain_def
  r16_Intersection_def r16_Transform_def

lemma emit_sel [simp]:
  "wins (emit e s) = wins s" "focused_ptr (emit e s) = focused_ptr s"
  "effects (emit e s) = effects s @ [e]" "subwins (emit e s) = subwins s"
  by (simp_all add: emit_def)

lemma set_flags_sel [simp]:
  "wins (set_flags f s a) = (wins s)(a := (wins s a)\<lparr>flags := f (flags (wins s a))\<rparr>)"
  "focused_ptr (set_flags f s a) = focused_ptr s"
  "effects (set_flags f s a) = effects s" "subwins (set_flags f s a) = subwins s"
  by (simp_all add: set_flags_def)

lemma the_flags_set_flags [simp]:
  "the_flags (set_flags f s a) b = (if b = a then f (the_flags s a) else the_flags s b)"
  by (simp add: the_flags_def)

lemma the_flags_emit [simp]: "the_flags (emit e s) b = the_flags s b"
  by (simp add: the_flags_def)

subsection \<open>Visibility\<close>

text \<open>
  Claim C8.  A window is effectively visible exactly when its visible flag is set and it is
  not hidden behind a dialog.  \<open>ShowAfterDialog\<close> and \<open>HideBehindDialog\<close> leave the visible flag
  as it is: after \<open>HideBehindDialog\<close> the window is not effectively visible, and after
  \<open>ShowAfterDialog\<close> it is effectively visible exactly when its visible flag is set.
\<close>
theorem C8_effective_visibility:
  "IsVisible s w = (HasVisibleFlag s w \<and> \<not> IsHiddenBehindDialog s w)
   \<and> HasVisibleFlag (ShowAfterDialog R s w) w = HasVisibleFlag s w
   \<and> HasVisibleFlag (HideBehindDialog R s w) w = HasVisibleFlag s w
   \<and> IsVisible (ShowAfterDialog R s w) w = HasVisibleFlag s w
   \<and> \<not> IsVisible (HideBehindDialog R s w) w"
  by (simp add: IsVisible_def HasVisibleFlag_def IsHiddenBehindDialog_def ShowAfterDialog_def
      HideBehindDialog_def Invalidate_def invalidate_def gui_invalidate_def)

text \<open>On the example screen: window 11 is visible, hiding it behind a dialog and showing it
  again changes \<open>IsVisible\<close> and keeps the visible flag.\<close>
theorem C8_witness:
  "IsVisible example_gui 11 \<and> \<not> IsVisible (HideBehindDialog rect16_ops example_gui 11) 11
   \<and> HasVisibleFlag (HideBehindDialog rect16_ops example_gui 11) 11
   \<and> IsVisible (ShowAfterDialog rect16_ops (HideBehindDialog rect16_ops example_gui 11) 11) 11"
  using C8_effective_visibility [of example_gui 11 rect16_ops]
    C8_effective_visibility [of "HideBehindDialog rect16_ops example_gui 11" 11 rect16_ops]
  by (simp add: HasVisibleFlag_def IsHiddenBehindDialog_def the_flags_def ex_defs)

subsection \<open>Focus requests that are ignored\<close>

text \<open>
  Claim C9.  For a window that is not effectively visible, or not enabled, or already the
  focused one, \<open>SetFocus\<close> returns with the whole state unchanged: the focus pointer, all
  flags of all windows and the recorded effects (so no FOCUS0 or FOCUS1 event and no repaint
  request).
\<close>
theorem C9_SetFocus_noop:
  "\<not> IsVisible s w \<or> \<not> IsEnabled s w \<or> IsFocused s w \<Longrightarrow> SetFocus R s w = Some s"
  by (auto simp add: SetFocus_def IsEnabled_def IsFocused_def GetFocusedWindow_def)

text \<open>Window 14 of the example is hidden, window 11 already has the focus.\<close>
theorem C9_witness:
  "\<not> IsVisible example_gui 14 \<and> SetFocus rect16_ops example_gui 14 = Some example_gui
   \<and> IsFocused example_gui 11 \<and> SetFocus rect16_ops example_gui 11 = Some example_gui"
proof -
  have a: "\<not> IsVisible example_gui 14"
    by (simp add: IsVisible_def the_flags_def ex_defs)
  have b: "IsFocused example_gui 11"
    by (simp add: IsFocused_def GetFocusedWindow_def ex_defs)
  from a b C9_SetFocus_noop [of example_gui 14 rect16_ops]
    C9_SetFocus_noop [of example_gui 11 rect16_ops]
  show ?thesis by simp
qed

subsection \<open>Invalidation\<close>

text \<open>
  Claim C3, as amended.  \<open>Invalidate r\<close> marks the window dirty and requests a repaint if
  \<open>r\<close> is empty or intersects the rectangle of the window; if \<open>r\<close> is not empty and does not
  intersect it, the state is unchanged (the flag stays and no repaint is requested).
\<close>
theorem C3_Invalidate_amended:
  "(IsEmpty R r \<or> HasIntersection R (rect (wins s w)) r \<longrightarrow>
      IsInvalid (Invalidate R s w r) w
      \<and> effects (Invalidate R s w r) = effects s @ [GuiInvalidate])
   \<and> (\<not> IsEmpty R r \<and> \<not> HasIntersection R (rect (wins s w)) r \<longrightarrow> Invalidate R s w r = s)"
  by (simp add: Invalidate_def invalidate_def gui_invalidate_def IsInvalid_def)

text \<open>
  Claim C3 as stated fails for the empty rectangle, which is also the default argument:
  it does not intersect the rectangle of window 11, and \<open>Invalidate\<close> still marks window 11
  dirty and requests a repaint.
\<close>
theorem C3_counterexample:
  "\<not> HasIntersection rect16_ops (rect (wins example_gui 11)) r16_default
   \<and> \<not> IsInvalid example_gui 11
   \<and> IsInvalid (Invalidate rect16_ops example_gui 11 r16_default) 11
   \<and> effects (Invalidate rect16_ops example_gui 11 r16_default) = [GuiInvalidate]"
  by (simp add: Invalidate_def invalidate_def gui_invalidate_def IsInvalid_def the_flags_def ex_defs)

text \<open>A rectangle that overlaps window 11 of the example and one that does not.\<close>
theorem C3_witness:
  "IsInvalid (Invalidate rect16_ops example_gui 11 \<lparr>rx = 0, ry = 0, rw = 20, rh = 20\<rparr>) 11
   \<and> Invalidate rect16_ops example_gui 11 \<lparr>rx = 0, ry = 0, rw = 5, rh = 5\<rparr> = example_gui"
  using C3_Invalidate_amended [of rect16_ops "\<lparr>rx = 0, ry = 0, rw = 20, rh = 20\<rparr>" example_gui 11]
    C3_Invalidate_amended [of rect16_ops "\<lparr>rx = 0, ry = 0, rw = 5, rh = 5\<rparr>" example_gui 11]
  by (simp add: ex_defs)


subsection \<open>Calls that return\<close>

lemma GetRect_returns: "root_within n W a \<Longrightarrow> \<exists>r. GetRect R W a = Some r"
proof (induction n arbitrary: a)
  case 0
  then show ?case by (subst GetRect.simps) simp
next
  case (Suc n)
  show ?case
  proof (cases "parent (W a)")
    case None
    then show ?thesis by (subst GetRect.simps) simp
  next
    case (Some p)
    with Suc.prems have "root_within n W p" by simp
    then obtain r where "GetRect R W p = Some r" using Suc.IH by blast
    with Some show ?thesis by (subst GetRect.simps) simp
  qed
qed

lemma GetRect_parent_returns:
  assumes "GetRect R W a = Some r" and "parent (W a) = Some p"
  shows "\<exists>pr. GetRect R W p = Some pr"
proof (cases "GetRect R W p")
  case None
  have "GetRect R W a = None" by (subst GetRect.simps) (simp add: assms(2) None)
  with assms(1) show ?thesis by simp
next
  case (Some pr)
  then show ?thesis by simp
qed

lemma WindowEvent_other:
  "event \<noteq> CLICK \<Longrightarrow>
   WindowEvent s this sender event param =
     Some (emit (EventLock ''WindowEvent via public'' sender event) s)"
  by (subst WindowEvent.simps) (simp add: Let_def)

lemma WindowEvent_returns:
  "root_within n (wins s) a \<Longrightarrow>
   \<exists>s'. WindowEvent s a sender event param = Some s' \<and> wins s' = wins s
        \<and> focused_ptr s' = focused_ptr s \<and> subwins s' = subwins s"
proof (induction n arbitrary: s a sender)
  case 0
  then show ?case by (subst WindowEvent.simps) (simp add: Let_def)
next
  case (Suc n)
  show ?case
  proof (cases "parent (wins s a)")
    case None
    then show ?thesis by (subst WindowEvent.simps) (simp add: Let_def)
  next
    case (Some p)
    let ?s1 = "emit (EventLock ''WindowEvent via public'' sender event) s"
    from Suc.prems Some have "root_within n (wins ?s1) p" by simp
    from Suc.IH [OF this, of "Some a"] Some show ?thesis
      by (subst WindowEvent.simps) (auto simp add: Let_def Screens_Close_def)
  qed
qed

subsection \<open>Clicks\<close>

lemma WindowEvent_click_chain:
  "root_within n (wins s) a \<Longrightarrow>
   WindowEvent s a sender CLICK param =
     Some (s\<lparr>effects := effects s @ click_chain n (wins s) a sender\<rparr>)"
proof (induction n arbitrary: s a sender)
  case 0
  then show ?case
    by (subst WindowEvent.simps) (simp add: Let_def emit_def)
next
  case (Suc n)
  let ?s1 = "emit (EventLock ''WindowEvent via public'' sender CLICK) s"
  show ?case
  proof (cases "parent (wins s a)")
    case None
    then show ?thesis
      by (subst WindowEvent.simps) (simp add: Let_def emit_def)
  next
    case (Some p)
    show ?thesis
    proof (cases "close_on_click (flags (wins s a)) = yes")
      case True
      with Some show ?thesis
        by (subst WindowEvent.simps) (simp add: Let_def emit_def Screens_Close_def)
    next
      case False
      from Suc.prems Some have "root_within n (wins ?s1) p" by simp
      from Suc.IH [OF this, of "Some a"]
      have "WindowEvent ?s1 p (Some a) CLICK param =
              Some (?s1\<lparr>effects := effects ?s1 @ click_chain n (wins ?s1) p (Some a)\<rparr>)" .
      with Some False show ?thesis
        by (subst WindowEvent.simps) (simp add: Let_def emit_def)
    qed
  qed
qed

text \<open>
  Claim C2.  A window with a parent that receives a CLICK through \<open>WindowEvent\<close> records the
  event and then closes the current screen (\<^verbatim>\<open>Screens::Close\<close>) if its close-on-click policy
  is yes; otherwise the result is that of \<open>WindowEvent\<close> of its parent for the same click, with
  the window as the sender.  A window without parent, the root of a screen, only records
  the click.  \<open>WindowEvent\<close> is the event lock followed by the virtual \<open>windowEvent\<close>.  When
  the parent pointers lead to a root the call returns, and what it has done is the chain
  \<open>click_chain\<close>, which ends at the first window that closes the screen or at the root;
  windows, focus and sub-window data are as before.
\<close>
theorem C2_click_bubbles:
  "(parent (wins s w) = Some p \<and> close_on_click (the_flags s w) = yes \<longrightarrow>
      WindowEvent s w sender CLICK param =
        Some (Screens_Close (emit (EventLock ''WindowEvent via public'' sender CLICK) s)))
   \<and> (parent (wins s w) = Some p \<and> close_on_click (the_flags s w) \<noteq> yes \<longrightarrow>
      WindowEvent s w sender CLICK param =
        WindowEvent (emit (EventLock ''WindowEvent via public'' sender CLICK) s) p (Some w)
          CLICK param)
   \<and> (parent (wins s w) = None \<longrightarrow>
      WindowEvent s w sender CLICK param =
        Some (emit (EventLock ''WindowEvent via public'' sender CLICK) s))
   \<and> WindowEvent s w sender CLICK param =
        windowEvent (emit (EventLock ''WindowEvent via public'' sender CLICK) s) w sender
          CLICK param
   \<and> (root_within n (wins s) w \<longrightarrow>
        WindowEvent s w sender CLICK param =
          Some (s\<lparr>effects := effects s @ click_chain n (wins s) w sender\<rparr>))"
proof -
  have a: "WindowEvent s w sender CLICK param =
        Some (Screens_Close (emit (EventLock ''WindowEvent via public'' sender CLICK) s))"
    if "parent (wins s w) = Some p" "close_on_click (the_flags s w) = yes"
    using that by (subst WindowEvent.simps) (simp add: Let_def the_flags_def)
  have b: "WindowEvent s w sender CLICK param =
        WindowEvent (emit (EventLock ''WindowEvent via public'' sender CLICK) s) p (Some w)
          CLICK param"
    if "parent (wins s w) = Some p" "close_on_click (the_flags s w) \<noteq> yes"
    using that by (subst WindowEvent.simps) (simp add: Let_def the_flags_def)
  have c: "WindowEvent s w sender CLICK param =
        Some (emit (EventLock ''WindowEvent via public'' sender CLICK) s)"
    if "parent (wins s w) = None"
    using that by (subst WindowEvent.simps) (simp add: Let_def)
  from a b c WindowEvent_src [of s w sender CLICK param]
    WindowEvent_click_chain [of n s w sender param]
  show ?thesis by blast
qed

subsection \<open>Registration of sub-windows\<close>

lemma RegisterSubWin_accepts:
  assumes "GetRect R (wins s) p = Some pr" and "GetRect R (wins s) c = Some cr"
  shows "Contain R pr cr \<longrightarrow>
              (\<exists>s'. RegisterSubWin V R s p c = Some (fst (v_registerSubWin V p c (subwins s)), s')
                    \<and> subwins s' = snd (v_registerSubWin V p c (subwins s)))"
  using assms
  by (auto simp add: RegisterSubWin_def Let_def Screens_ResetTimeout_def SetRelativeSubwins_def
      split: prod.splits)

text \<open>
  Claim C5.  \<open>RegisterSubWin\<close> of a parent \<open>p\<close> for a child \<open>c\<close> returns true only if the
  rectangle of \<open>c\<close> (its \<open>GetRect\<close>) is contained in that of \<open>p\<close>.  When it is not contained
  the call returns false and the state is unchanged: nothing is registered.  When it is
  contained the result is the one of the virtual \<open>registerSubWin\<close> of the parent.
\<close>
theorem C5_RegisterSubWin_contained:
  assumes "GetRect R (wins s) p = Some pr" and "GetRect R (wins s) c = Some cr"
  shows "(\<not> Contain R pr cr \<longrightarrow> RegisterSubWin V R s p c = Some (False, s))
         \<and> (\<forall>s'. RegisterSubWin V R s p c = Some (True, s') \<longrightarrow> Contain R pr cr)
         \<and> (Contain R pr cr \<longrightarrow>
              (\<exists>s'. RegisterSubWin V R s p c = Some (fst (v_registerSubWin V p c (subwins s)), s')
                    \<and> subwins s' = snd (v_registerSubWin V p c (subwins s))))"
  using assms
  by (auto simp add: RegisterSubWin_def Let_def Screens_ResetTimeout_def SetRelativeSubwins_def
      split: prod.splits)


subsection \<open>Construction\<close>

lemma the_flags_upd [simp]:
  "the_flags (s\<lparr>subwins := x\<rparr>) = the_flags s"
  "the_flags (s\<lparr>effects := e\<rparr>) = the_flags s"
  "the_flags (s\<lparr>focused_ptr := f\<rparr>) = the_flags s"
  by (simp_all add: the_flags_def fun_eq_iff)

lemma RegisterSubWin_frame:
  assumes "RegisterSubWin V R s p c = Some (b, s')"
  shows "enabled (the_flags s' a) = enabled (the_flags s a)"
    and "invalid (the_flags s' a) = invalid (the_flags s a)"
    and "focused_ptr s' = focused_ptr s"
  using assms
  by (auto simp add: RegisterSubWin_def Let_def Screens_ResetTimeout_def SetRelativeSubwins_def
      split: prod.splits if_splits bind_splits)

lemma window_t_init_flags:
  "the_flags (window_t_init R cb s w par rc ty close) w =
     flags_zero\<lparr>win_type := ty, close_on_click := close, enabled := (close = yes),
       visible := True,
       invalid := (IsEmpty R (Rect16_default R) \<or> HasIntersection R rc (Rect16_default R))\<rparr>"
  by (simp add: window_t_init_def Let_def Invalidate_def invalidate_def gui_invalidate_def
      Enable_def Disable_def the_flags_def set_flags_def flags_zero_def)

lemma window_t_init_parent:
  "parent (wins (window_t_init R cb s w par rc ty close) w) = par"
  by (simp add: window_t_init_def Let_def Invalidate_def invalidate_def gui_invalidate_def
      Enable_def Disable_def set_flags_def)

lemma window_t_ctor_returns:
  assumes "root_within n (wins (window_t_init R cb s w par rc ty close)) w"
  shows "\<exists>s'. window_t_ctor V R cb s w par rc ty close = Some s'"
proof (cases par)
  case None
  then show ?thesis by (simp add: window_t_ctor_def)
next
  case (Some p)
  let ?s6 = "window_t_init R cb s w par rc ty close"
  obtain cr where cr: "GetRect R (wins ?s6) w = Some cr"
    using GetRect_returns [OF assms] by blast
  have "parent (wins ?s6 w) = Some p" using Some by (simp add: window_t_init_parent)
  from GetRect_parent_returns [OF cr this] obtain pr where "GetRect R (wins ?s6) p = Some pr"
    by blast
  with cr Some show ?thesis
    by (auto simp add: window_t_ctor_def RegisterSubWin_def Let_def split: prod.splits)
qed

text \<open>
  Claim C10.  After construction the window is enabled if and only if the close-on-click
  argument is \<open>yes\<close>; the constructor returns whenever the parent pointers of the new window
  lead to a root.
\<close>
theorem C10_ctor_enabled:
  "(\<forall>s'. window_t_ctor V R cb s w par rc ty close = Some s' \<longrightarrow>
        IsEnabled s' w = (close = yes))
   \<and> (root_within n (wins (window_t_init R cb s w par rc ty close)) w \<longrightarrow>
        (\<exists>s'. window_t_ctor V R cb s w par rc ty close = Some s'))"
proof -
  have "IsEnabled s' w = (close = yes)"
    if "window_t_ctor V R cb s w par rc ty close = Some s'" for s'
  proof (cases par)
    case None
    with that show ?thesis
      by (auto simp add: window_t_ctor_def IsEnabled_def window_t_init_flags)
  next
    case (Some p)
    with that obtain b
      where "RegisterSubWin V R (window_t_init R cb s w par rc ty close) p w = Some (b, s')"
      by (auto simp add: window_t_ctor_def)
    from RegisterSubWin_frame(1) [OF this, of w] show ?thesis
      by (simp add: IsEnabled_def window_t_init_flags)
  qed
  moreover have "\<exists>s'. window_t_ctor V R cb s w par rc ty close = Some s'"
    if "root_within n (wins (window_t_init R cb s w par rc ty close)) w"
    using that by (rule window_t_ctor_returns)
  ultimately show ?thesis by simp
qed


subsection \<open>Drawing\<close>

lemma Invalidate_frame [simp]:
  "focused_ptr (Invalidate R s a r) = focused_ptr s"
  "subwins (Invalidate R s a r) = subwins s"
  "parent (wins (Invalidate R s a r) b) = parent (wins s b)"
  "rect (wins (Invalidate R s a r) b) = rect (wins s b)"
  by (simp_all add: Invalidate_def invalidate_def gui_invalidate_def)

lemma Invalidate_flags:
  "the_flags (Invalidate R s a r) b =
     (if b = a \<and> (IsEmpty R r \<or> HasIntersection R (rect (wins s a)) r)
      then (the_flags s a)\<lparr>invalid := True\<rparr> else the_flags s b)"
  by (simp add: Invalidate_def invalidate_def gui_invalidate_def)

text \<open>
  Claim C4, as amended.  With the default rectangle empty, \<open>Draw\<close> repaints exactly the
  windows that are invalid, of non-zero width and height, and effectively visible, by one
  \<^verbatim>\<open>display::FillRect\<close> of the window's rectangle.  It marks valid every window that is
  invalid and of non-zero width and height, repainted or not; a window that is valid or has
  a zero width or height is left as it is.
\<close>
theorem C4_Draw_amended:
  assumes "IsEmpty R (Rect16_default R)"
  shows
    "(IsInvalid s w \<and> Width R (rect (wins s w)) \<noteq> 0 \<and> Height R (rect (wins s w)) \<noteq> 0
        \<and> IsVisible s w \<longrightarrow>
      (\<forall>r. GetRect R (wins s) w = Some r \<longrightarrow>
         Draw R s w = Some (set_flags (\<lambda>f. f\<lparr>invalid := False\<rparr>)
                             (emit (DisplayFillRect r (GetBackColor s w)) s) w)))
     \<and> (IsInvalid s w \<and> Width R (rect (wins s w)) \<noteq> 0 \<and> Height R (rect (wins s w)) \<noteq> 0
        \<and> \<not> IsVisible s w \<longrightarrow>
      Draw R s w = Some (set_flags (\<lambda>f. f\<lparr>invalid := False\<rparr>) s w))
     \<and> (\<not> IsInvalid s w \<or> Width R (rect (wins s w)) = 0 \<or> Height R (rect (wins s w)) = 0 \<longrightarrow>
      Draw R s w = Some s)
     \<and> (root_within n (wins s) w \<longrightarrow> (\<exists>s'. Draw R s w = Some s'))"
proof -
  have "\<exists>s'. Draw R s w = Some s'" if "root_within n (wins s) w"
  proof -
    from GetRect_returns [OF that] obtain r where "GetRect R (wins s) w = Some r" by blast
    then show ?thesis by (simp add: Draw_def draw_def unconditionalDraw_def)
  qed
  then show ?thesis using assms
    by (auto simp add: Draw_def draw_def unconditionalDraw_def Validate_def validate_def)
qed

subsection \<open>Focus\<close>

text \<open>
  Claim C1.  At most one window is focused: \<open>IsFocused\<close> compares with the one pointer
  \<open>focused_ptr\<close>.  \<open>SetFocus\<close> on a visible and enabled window returns with that window
  focused and no other; and after the destructor of the focused window has run the pointer
  is null (the destructor returns when the parent pointers lead to a root).
\<close>
theorem C1_single_focus:
  "(IsFocused s a \<and> IsFocused s b \<longrightarrow> a = b)
   \<and> (IsVisible s w \<and> IsEnabled s w \<longrightarrow>
        (\<exists>s'. SetFocus R s w = Some s' \<and> IsFocused s' w \<and> (\<forall>v. v \<noteq> w \<longrightarrow> \<not> IsFocused s' v)))
   \<and> (IsFocused s d \<longrightarrow>
        (\<forall>s'. window_t_dtor V R s d = Some s' \<longrightarrow> GetFocusedWindow s' = None))
   \<and> (IsFocused s d \<and> root_within n (wins s) d \<longrightarrow>
        (\<exists>s'. window_t_dtor V R s d = Some s' \<and> GetFocusedWindow s' = None))"
proof -
  have set: "\<exists>s'. SetFocus R s w = Some s' \<and> IsFocused s' w \<and> (\<forall>v. v \<noteq> w \<longrightarrow> \<not> IsFocused s' v)"
    if "IsVisible s w" "IsEnabled s w"
    using that
    by (cases "focused_ptr s")
      (auto simp add: SetFocus_def IsEnabled_def IsFocused_def GetFocusedWindow_def
        WindowEvent_other gui_invalidate_def)
  have del: "GetFocusedWindow s' = None"
    if "IsFocused s d" "window_t_dtor V R s d = Some s'" for s'
    using that
    by (auto simp add: window_t_dtor_def Let_def IsFocused_def GetFocusedWindow_def
        gui_timers_delete_by_window_def Screens_ResetTimeout_def UnregisterSubWin_def
        addInvalidationRect_def GetParent_def
        split: option.splits if_splits bind_splits)
  have ret: "\<exists>s'. window_t_dtor V R s d = Some s'" if "root_within n (wins s) d"
  proof -
    from GetRect_returns [OF that] obtain r where "GetRect R (wins s) d = Some r" by blast
    then show ?thesis
      by (auto simp add: window_t_dtor_def Let_def GetFocusedWindow_def
          gui_timers_delete_by_window_def UnregisterSubWin_def GetParent_def
          split: option.splits)
  qed
  from set del ret show ?thesis
    by (auto simp add: IsFocused_def)
qed

subsection \<open>Destruction\<close>

text \<open>
  Claim C7.  The destructor of a window whose parent pointers lead to a root returns.  It
  first deletes the GUI timers of the window; the focus pointer becomes null if it pointed
  to the window and is unchanged otherwise; a window with a parent is unregistered from
  it (the parent is invalidated when its rectangle is not empty, its virtual
  \<open>unregisterSubWin\<close> runs, the timeout is reset); last, the timeout of the screen manager
  is reset.
\<close>
theorem C7_destructor:
  assumes "root_within n (wins s) w"
  shows "\<exists>s'. window_t_dtor V R s w = Some s'
     \<and> focused_ptr s' = (if focused_ptr s = Some w then None else focused_ptr s)
     \<and> (case parent (wins s w) of
          None \<Rightarrow>
            subwins s' = subwins s
            \<and> effects s' = effects s @ [TimersDeleteByWindow w, ScreensResetTimeout]
        | Some p \<Rightarrow>
            subwins s' = v_unregisterSubWin V p w (subwins s)
            \<and> effects s' = effects s @ [TimersDeleteByWindow w]
                 @ (if \<not> IsEmpty R (rect (wins s p))
                       \<and> (IsEmpty R (Rect16_default R)
                           \<or> HasIntersection R (rect (wins s p)) (Rect16_default R))
                    then [GuiInvalidate] else [])
                 @ [ScreensResetTimeout, ScreensResetTimeout])"
proof -
  from GetRect_returns [OF assms] obtain r where "GetRect R (wins s) w = Some r" by blast
  then show ?thesis
    by (auto simp add: window_t_dtor_def Let_def GetFocusedWindow_def
        gui_timers_delete_by_window_def UnregisterSubWin_def GetParent_def
        addInvalidationRect_def Invalidate_def invalidate_def gui_invalidate_def
        Screens_ResetTimeout_def
        split: option.splits)
qed

subsection \<open>Construction and registration\<close>

text \<open>
  Claim C6, as amended.  With the default rectangle empty, the constructor leaves the new
  window marked dirty.  With a null parent nothing else happens.  With a parent it calls
  \<open>RegisterSubWin\<close> of the parent: when the rectangle of the new window (its \<open>GetRect\<close>) is
  not contained in the rectangle of the parent (its \<open>GetRect\<close>) nothing is registered, and
  when it is contained the new window is handed to the virtual \<open>registerSubWin\<close> of the
  parent, and is still dirty.
\<close>
theorem C6_ctor_amended:
  assumes "IsEmpty R (Rect16_default R)"
  shows "IsInvalid (window_t_init R cb s w par rc ty close) w
     \<and> (par = None \<longrightarrow>
          window_t_ctor V R cb s w par rc ty close = Some (window_t_init R cb s w par rc ty close))
     \<and> (\<forall>p pr cr. par = Some p
            \<and> GetRect R (wins (window_t_init R cb s w par rc ty close)) p = Some pr
            \<and> GetRect R (wins (window_t_init R cb s w par rc ty close)) w = Some cr \<longrightarrow>
          (\<not> Contain R pr cr \<longrightarrow>
             window_t_ctor V R cb s w par rc ty close
               = Some (window_t_init R cb s w par rc ty close))
          \<and> (Contain R pr cr \<longrightarrow>
               (\<exists>s'. window_t_ctor V R cb s w par rc ty close = Some s'
                  \<and> subwins s' = snd (v_registerSubWin V p w (subwins s))
                  \<and> IsInvalid s' w)))"
proof -
  let ?s6 = "window_t_init R cb s w par rc ty close"
  have inv: "IsInvalid ?s6 w"
    using assms by (simp add: IsInvalid_def window_t_init_flags)
  have sub: "subwins ?s6 = subwins s"
    by (simp add: window_t_init_def Let_def Enable_def Disable_def)
  have reg: "\<exists>s'. window_t_ctor V R cb s w par rc ty close = Some s'
                  \<and> subwins s' = snd (v_registerSubWin V p w (subwins s)) \<and> IsInvalid s' w"
    if "par = Some p" "GetRect R (wins ?s6) p = Some pr" "GetRect R (wins ?s6) w = Some cr"
      "Contain R pr cr" for p pr cr
  proof -
    from RegisterSubWin_accepts [OF that(2,3), of V] that(4) obtain s'
      where r: "RegisterSubWin V R ?s6 p w = Some (fst (v_registerSubWin V p w (subwins ?s6)), s')"
        and x: "subwins s' = snd (v_registerSubWin V p w (subwins ?s6))"
      by blast
    from RegisterSubWin_frame(2) [OF r, of w] inv have "IsInvalid s' w"
      by (simp add: IsInvalid_def)
    with r x sub that(1) show ?thesis by (simp add: window_t_ctor_def)
  qed
  have noreg: "window_t_ctor V R cb s w par rc ty close = Some ?s6"
    if "par = Some p" "GetRect R (wins ?s6) p = Some pr" "GetRect R (wins ?s6) w = Some cr"
      "\<not> Contain R pr cr" for p pr cr
    using that by (simp add: window_t_ctor_def RegisterSubWin_def)
  from inv reg noreg show ?thesis
    by (auto simp add: window_t_ctor_def)
qed


subsection \<open>The example screen\<close>

lemma example_GetRect:
  "GetRect rect16_ops example_wins 10 = Some \<lparr>rx = 0, ry = 0, rw = 240, rh = 320\<rparr>"
  "GetRect rect16_ops example_wins 11 = Some \<lparr>rx = 10, ry = 10, rw = 100, rh = 50\<rparr>"
  "GetRect rect16_ops example_wins 12 = Some \<lparr>rx = 20, ry = 20, rw = 50, rh = 10\<rparr>"
  "GetRect rect16_ops example_wins 13 = Some \<lparr>rx = 10, ry = 70, rw = 100, rh = 20\<rparr>"
  "GetRect rect16_ops example_wins 14 = Some \<lparr>rx = 10, ry = 100, rw = 100, rh = 20\<rparr>"
  by (simp_all add: GetRect.simps ex_defs)

lemma example_parent:
  "parent (wins example_gui 10) = None" "parent (wins example_gui 11) = Some 10"
  "parent (wins example_gui 12) = Some 11" "parent (wins example_gui 13) = Some 10"
  "parent (wins example_gui 14) = Some 10" "parent (wins example_gui 15) = None"
  by (simp_all add: ex_defs)

lemma example_root_within:
  "root_within 0 (wins example_gui) 10" "root_within (Suc 0) (wins example_gui) 11"
  "root_within (Suc (Suc 0)) (wins example_gui) 12" "root_within (Suc 0) (wins example_gui) 13"
  "root_within (Suc 0) (wins example_gui) 14"
  by (simp_all add: example_parent)

text \<open>A click on window 13 closes the screen; a click on window 12 goes to window 11 and
  from there to the root 10, where it ends; a click on the root is only recorded.\<close>
theorem C2_witness:
  "WindowEvent example_gui 13 (Some 13) CLICK 0 =
     Some (example_gui\<lparr>effects :=
        [EventLock ''WindowEvent via public'' (Some 13) CLICK, ScreensClose]\<rparr>)
   \<and> WindowEvent example_gui 12 (Some 12) CLICK 0 =
     Some (example_gui\<lparr>effects :=
        [EventLock ''WindowEvent via public'' (Some 12) CLICK,
         EventLock ''WindowEvent via public'' (Some 12) CLICK,
         EventLock ''WindowEvent via public'' (Some 11) CLICK]\<rparr>)
   \<and> WindowEvent example_gui 10 (Some 10) CLICK 0 =
     Some (example_gui\<lparr>effects := [EventLock ''WindowEvent via public'' (Some 10) CLICK]\<rparr>)
   \<and> WindowEvent example_gui 12 (Some 12) CLICK 0 =
     WindowEvent (emit (EventLock ''WindowEvent via public'' (Some 12) CLICK) example_gui)
       11 (Some 12) CLICK 0"
proof -
  have c3: "close_on_click (the_flags example_gui 13) = yes"
    and c2: "close_on_click (the_flags example_gui 12) \<noteq> yes"
    by (simp_all add: the_flags_def ex_defs)
  have e: "effects example_gui = []"
    by (simp add: example_gui_def)
  have ch: "click_chain (Suc (Suc 0)) (wins example_gui) 12 (Some 12) =
             [EventLock ''WindowEvent via public'' (Some 12) CLICK,
              EventLock ''WindowEvent via public'' (Some 12) CLICK,
              EventLock ''WindowEvent via public'' (Some 11) CLICK]"
    by (simp add: ex_defs)
  from C2_click_bubbles [of example_gui 13 10 "Some 13" 0 0] c3 example_parent(4)
  have "WindowEvent example_gui 13 (Some 13) CLICK 0 =
     Some (Screens_Close (emit (EventLock ''WindowEvent via public'' (Some 13) CLICK) example_gui))"
    by blast
  then have w13: "WindowEvent example_gui 13 (Some 13) CLICK 0 =
     Some (example_gui\<lparr>effects :=
        [EventLock ''WindowEvent via public'' (Some 13) CLICK, ScreensClose]\<rparr>)"
    by (simp add: Screens_Close_def emit_def e)
  note t = C2_click_bubbles [of example_gui 12 11 "Some 12" 0 "Suc (Suc 0)"]
  from t example_root_within(3)
  have "WindowEvent example_gui 12 (Some 12) CLICK 0 =
     Some (example_gui\<lparr>effects := effects example_gui
        @ click_chain (Suc (Suc 0)) (wins example_gui) 12 (Some 12)\<rparr>)"
    by blast
  then have w12: "WindowEvent example_gui 12 (Some 12) CLICK 0 =
     Some (example_gui\<lparr>effects :=
        [EventLock ''WindowEvent via public'' (Some 12) CLICK,
         EventLock ''WindowEvent via public'' (Some 12) CLICK,
         EventLock ''WindowEvent via public'' (Some 11) CLICK]\<rparr>)"
    by (simp only: ch e append_Nil)
  from t c2 example_parent(3)
  have r12: "WindowEvent example_gui 12 (Some 12) CLICK 0 =
     WindowEvent (emit (EventLock ''WindowEvent via public'' (Some 12) CLICK) example_gui)
       11 (Some 12) CLICK 0"
    by blast
  from C2_click_bubbles [of example_gui 10 10 "Some 10" 0 0] example_parent(1)
  have "WindowEvent example_gui 10 (Some 10) CLICK 0 =
     Some (emit (EventLock ''WindowEvent via public'' (Some 10) CLICK) example_gui)"
    by blast
  then have w10: "WindowEvent example_gui 10 (Some 10) CLICK 0 =
     Some (example_gui\<lparr>effects := [EventLock ''WindowEvent via public'' (Some 10) CLICK]\<rparr>)"
    by (simp add: emit_def e)
  from w13 w12 w10 r12 show ?thesis by (intro conjI)
qed

lemma example_click:
  "WindowEvent example_gui 12 (Some 12) CLICK 0 =
     Some (example_gui\<lparr>effects :=
        [EventLock ''WindowEvent via public'' (Some 12) CLICK,
         EventLock ''WindowEvent via public'' (Some 12) CLICK,
         EventLock ''WindowEvent via public'' (Some 11) CLICK]\<rparr>)"
  by (simp add: WindowEvent.simps Let_def emit_def ex_defs)


lemma wins_example_gui [simp]: "wins example_gui = example_wins"
  by (simp add: example_gui_def)

text \<open>Window 11 has the focus; \<open>SetFocus\<close> moves it to window 12, and destroying window 11
  clears it.\<close>

theorem C1_witness:
  "IsFocused example_gui 11 \<and> IsVisible example_gui 12 \<and> IsEnabled example_gui 12
   \<and> SetFocus rect16_ops example_gui 12 \<noteq> None
   \<and> IsFocused (the (SetFocus rect16_ops example_gui 12)) 12
   \<and> \<not> IsFocused (the (SetFocus rect16_ops example_gui 12)) 11
   \<and> window_t_dtor frame_overrides rect16_ops example_gui 11 \<noteq> None
   \<and> GetFocusedWindow (the (window_t_dtor frame_overrides rect16_ops example_gui 11)) = None"
proof -
  have f: "IsFocused example_gui 11"
    by (simp add: IsFocused_def GetFocusedWindow_def example_gui_def)
  have v: "IsVisible example_gui 12" and e: "IsEnabled example_gui 12"
    by (simp_all add: IsVisible_def IsEnabled_def the_flags_def ex_defs)
  note t = C1_single_focus [of example_gui 11 11 12 rect16_ops 11 frame_overrides "Suc 0"]
  from t v e obtain s1 where s1: "SetFocus rect16_ops example_gui 12 = Some s1"
    "IsFocused s1 12" "\<not> IsFocused s1 11"
    by force
  from t f example_root_within(2) obtain s2
    where s2: "window_t_dtor frame_overrides rect16_ops example_gui 11 = Some s2"
      "GetFocusedWindow s2 = None"
    by blast
  from f v e s1 s2 show ?thesis by simp
qed

text \<open>Window 12 is dirty and visible, window 14 dirty and hidden, window 11 clean.\<close>

theorem C4_witness:
  "Draw rect16_ops example_gui 12 =
     Some (set_flags (\<lambda>f. f\<lparr>invalid := False\<rparr>)
             (emit (DisplayFillRect \<lparr>rx = 20, ry = 20, rw = 50, rh = 10\<rparr> 0) example_gui) 12)
   \<and> Draw rect16_ops example_gui 14 = Some (set_flags (\<lambda>f. f\<lparr>invalid := False\<rparr>) example_gui 14)
   \<and> Draw rect16_ops example_gui 11 = Some example_gui"
proof -
  have d: "IsEmpty rect16_ops (Rect16_default rect16_ops)"
    by (simp add: ex_defs)
  have a: "IsInvalid example_gui 12" "IsVisible example_gui 12"
    "Width rect16_ops (rect (wins example_gui 12)) \<noteq> 0"
    "Height rect16_ops (rect (wins example_gui 12)) \<noteq> 0"
    "GetBackColor example_gui 12 = 0"
    by (simp_all add: IsInvalid_def IsVisible_def GetBackColor_def the_flags_def ex_defs)
  have b: "IsInvalid example_gui 14" "\<not> IsVisible example_gui 14"
    "Width rect16_ops (rect (wins example_gui 14)) \<noteq> 0"
    "Height rect16_ops (rect (wins example_gui 14)) \<noteq> 0"
    by (simp_all add: IsInvalid_def IsVisible_def the_flags_def ex_defs)
  have c: "\<not> IsInvalid example_gui 11"
    by (simp add: IsInvalid_def the_flags_def ex_defs)
  from C4_Draw_amended [OF d, of example_gui 12 0] a example_GetRect(3)
  have "Draw rect16_ops example_gui 12 =
     Some (set_flags (\<lambda>f. f\<lparr>invalid := False\<rparr>)
             (emit (DisplayFillRect \<lparr>rx = 20, ry = 20, rw = 50, rh = 10\<rparr> 0) example_gui) 12)"
    by simp
  moreover from C4_Draw_amended [OF d, of example_gui 14 0] b
  have "Draw rect16_ops example_gui 14 = Some (set_flags (\<lambda>f. f\<lparr>invalid := False\<rparr>) example_gui 14)"
    by simp
  moreover from C4_Draw_amended [OF d, of example_gui 11 0] c
  have "Draw rect16_ops example_gui 11 = Some example_gui"
    by simp
  ultimately show ?thesis by simp
qed

text \<open>
  Claim C4 as stated fails on window 14: it is invalid and of non-zero size but not
  visible, so it does not meet the three conditions; \<open>Draw\<close> paints nothing and marks it
  valid all the same.
\<close>

theorem C4_counterexample:
  "IsInvalid example_gui 14
   \<and> Width rect16_ops (rect (wins example_gui 14)) \<noteq> 0
   \<and> Height rect16_ops (rect (wins example_gui 14)) \<noteq> 0
   \<and> \<not> IsVisible example_gui 14
   \<and> Draw rect16_ops example_gui 14 = Some (set_flags (\<lambda>f. f\<lparr>invalid := False\<rparr>) example_gui 14)
   \<and> effects (set_flags (\<lambda>f. f\<lparr>invalid := False\<rparr>) example_gui 14) = []
   \<and> \<not> IsInvalid (set_flags (\<lambda>f. f\<lparr>invalid := False\<rparr>) example_gui 14) 14"
  by (simp add: Draw_def draw_def Validate_def validate_def IsInvalid_def IsVisible_def
      the_flags_def ex_defs)

text \<open>Window 11 lies inside the root 10 and is accepted by a frame; window 14 does not lie
  inside window 13 and is refused.\<close>

theorem C5_witness:
  "RegisterSubWin frame_overrides rect16_ops example_gui 13 14 = Some (False, example_gui)
   \<and> RegisterSubWin frame_overrides rect16_ops example_gui 10 11 \<noteq> None
   \<and> fst (the (RegisterSubWin frame_overrides rect16_ops example_gui 10 11))
   \<and> subwins (snd (the (RegisterSubWin frame_overrides rect16_ops example_gui 10 11)))
       = [(10, 11), (11, 12), (10, 13), (10, 14), (10, 11)]"
proof -
  have n: "\<not> Contain rect16_ops \<lparr>rx = 10, ry = 70, rw = 100, rh = 20\<rparr>
             \<lparr>rx = 10, ry = 100, rw = 100, rh = 20\<rparr>"
    and y: "Contain rect16_ops \<lparr>rx = 0, ry = 0, rw = 240, rh = 320\<rparr>
             \<lparr>rx = 10, ry = 10, rw = 100, rh = 50\<rparr>"
    by (simp_all add: ex_defs)
  have x: "v_registerSubWin frame_overrides 10 11 (subwins example_gui)
           = (True, [(10, 11), (11, 12), (10, 13), (10, 14), (10, 11)])"
    by (simp add: frame_overrides_def frame_registerSubWin_def example_gui_def)
  from C5_RegisterSubWin_contained [of rect16_ops example_gui 13 _ 14 _ frame_overrides]
    example_GetRect(4,5) n
  have "RegisterSubWin frame_overrides rect16_ops example_gui 13 14 = Some (False, example_gui)"
    by simp
  moreover
  from C5_RegisterSubWin_contained [of rect16_ops example_gui 10 _ 11 _ frame_overrides]
    example_GetRect(1,2) y x
  obtain s' where "RegisterSubWin frame_overrides rect16_ops example_gui 10 11 = Some (True, s')"
    "subwins s' = [(10, 11), (11, 12), (10, 13), (10, 14), (10, 11)]"
    by auto
  ultimately show ?thesis by simp
qed

text \<open>Destroying the focused window 11, a child of the root 10.\<close>

theorem C7_witness:
  "window_t_dtor frame_overrides rect16_ops example_gui 11 \<noteq> None
   \<and> focused_ptr (the (window_t_dtor frame_overrides rect16_ops example_gui 11)) = None
   \<and> subwins (the (window_t_dtor frame_overrides rect16_ops example_gui 11))
       = [(11, 12), (10, 13), (10, 14)]
   \<and> effects (the (window_t_dtor frame_overrides rect16_ops example_gui 11))
       = [TimersDeleteByWindow 11, GuiInvalidate, ScreensResetTimeout, ScreensResetTimeout]"
proof -
  have a: "focused_ptr example_gui = Some 11" "effects example_gui = []"
    "v_unregisterSubWin frame_overrides 10 11 (subwins example_gui) = [(11, 12), (10, 13), (10, 14)]"
    "\<not> IsEmpty rect16_ops (rect (wins example_gui 10))"
    "IsEmpty rect16_ops (Rect16_default rect16_ops)"
    by (simp_all add: frame_overrides_def frame_unregisterSubWin_def ex_defs)
  from C7_destructor [OF example_root_within(2), of frame_overrides rect16_ops] a example_parent(2)
  obtain s' where "window_t_dtor frame_overrides rect16_ops example_gui 11 = Some s'"
    "focused_ptr s' = None" "subwins s' = [(11, 12), (10, 13), (10, 14)]"
    "effects s' = [TimersDeleteByWindow 11, GuiInvalidate, ScreensResetTimeout, ScreensResetTimeout]"
    by auto
  then show ?thesis by simp
qed


text \<open>A new window 15 on the example screen: its store, parent chain and rectangles.\<close>

lemma example_init:
  "wins (window_t_init rect16_ops cb example_gui 15 par rc ty close) a =
     (if a = 15 then
        \<lparr>parent = par, next_win = None, rect = rc,
         flags = flags_zero\<lparr>win_type := ty, close_on_click := close, enabled := (close = yes),
                   visible := True, invalid := True\<rparr>,
         color_back = cb, pBackColorScheme = None\<rparr>
      else example_wins a)"
  "subwins (window_t_init rect16_ops cb example_gui 15 par rc ty close) = subwins example_gui"
  by (simp_all add: window_t_init_def Let_def Invalidate_def invalidate_def gui_invalidate_def
      Enable_def Disable_def set_flags_def ex_defs)

lemma example_init_GetRect:
  "GetRect rect16_ops (wins (window_t_init rect16_ops cb example_gui 15 par rc ty close)) 10
     = Some \<lparr>rx = 0, ry = 0, rw = 240, rh = 320\<rparr>"
  "GetRect rect16_ops (wins (window_t_init rect16_ops cb example_gui 15 par rc ty close)) 13
     = Some \<lparr>rx = 10, ry = 70, rw = 100, rh = 20\<rparr>"
  "GetRect rect16_ops (wins (window_t_init rect16_ops cb example_gui 15 (Some 10)
       \<lparr>rx = 20, ry = 200, rw = 30, rh = 30\<rparr> ty close)) 15
     = Some \<lparr>rx = 20, ry = 200, rw = 30, rh = 30\<rparr>"
  "GetRect rect16_ops (wins (window_t_init rect16_ops cb example_gui 15 (Some 13)
       \<lparr>rx = 200, ry = 200, rw = 10, rh = 10\<rparr> ty close)) 15
     = Some \<lparr>rx = 0, ry = 0, rw = 0, rh = 0\<rparr>"
  by (simp_all add: GetRect.simps example_init example_wins_def example_window_def
      flags_zero_def)
    (simp_all add: rect16_ops_def r16_Intersection_def r16_HasIntersection_def r16_IsEmpty_def
      r16_default_def)

lemma example_Contain:
  "Contain rect16_ops \<lparr>rx = 0, ry = 0, rw = 240, rh = 320\<rparr> \<lparr>rx = 20, ry = 200, rw = 30, rh = 30\<rparr>"
  "\<not> Contain rect16_ops \<lparr>rx = 10, ry = 70, rw = 100, rh = 20\<rparr> \<lparr>rx = 0, ry = 0, rw = 0, rh = 0\<rparr>"
  by (simp_all add: ex_defs)

text \<open>Window 15 is constructed inside the root 10, a frame; without parent; and outside
  the frame 13.\<close>

theorem C6_witness:
  "window_t_ctor frame_overrides rect16_ops 0 example_gui 15 (Some 10)
      \<lparr>rx = 20, ry = 200, rw = 30, rh = 30\<rparr> normal no \<noteq> None
   \<and> subwins (the (window_t_ctor frame_overrides rect16_ops 0 example_gui 15 (Some 10)
        \<lparr>rx = 20, ry = 200, rw = 30, rh = 30\<rparr> normal no))
       = [(10, 11), (11, 12), (10, 13), (10, 14), (10, 15)]
   \<and> IsInvalid (the (window_t_ctor frame_overrides rect16_ops 0 example_gui 15 (Some 10)
        \<lparr>rx = 20, ry = 200, rw = 30, rh = 30\<rparr> normal no)) 15
   \<and> window_t_ctor frame_overrides rect16_ops 0 example_gui 15 None
        \<lparr>rx = 20, ry = 200, rw = 30, rh = 30\<rparr> normal no
       = Some (window_t_init rect16_ops 0 example_gui 15 None
                 \<lparr>rx = 20, ry = 200, rw = 30, rh = 30\<rparr> normal no)
   \<and> IsInvalid (window_t_init rect16_ops 0 example_gui 15 None
        \<lparr>rx = 20, ry = 200, rw = 30, rh = 30\<rparr> normal no) 15
   \<and> window_t_ctor frame_overrides rect16_ops 0 example_gui 15 (Some 13)
        \<lparr>rx = 200, ry = 200, rw = 10, rh = 10\<rparr> normal no
       = Some (window_t_init rect16_ops 0 example_gui 15 (Some 13)
                 \<lparr>rx = 200, ry = 200, rw = 10, rh = 10\<rparr> normal no)"
proof -
  let ?rc = "\<lparr>rx = 20, ry = 200, rw = 30, rh = 30\<rparr>"
  let ?out = "\<lparr>rx = 200, ry = 200, rw = 10, rh = 10\<rparr>"
  have d: "IsEmpty rect16_ops (Rect16_default rect16_ops)"
    by (simp add: ex_defs)
  have x: "snd (v_registerSubWin frame_overrides 10 15 (subwins example_gui))
           = [(10, 11), (11, 12), (10, 13), (10, 14), (10, 15)]"
    by (simp add: frame_overrides_def frame_registerSubWin_def example_gui_def)
  from C6_ctor_amended [OF d, of 0 example_gui 15 "Some 10" ?rc normal no frame_overrides]
    example_init_GetRect(1,3) example_Contain(1) x
  obtain s' where "window_t_ctor frame_overrides rect16_ops 0 example_gui 15 (Some 10) ?rc normal no
      = Some s'"
    "subwins s' = [(10, 11), (11, 12), (10, 13), (10, 14), (10, 15)]" "IsInvalid s' 15"
    by auto
  moreover
  from C6_ctor_amended [OF d, of 0 example_gui 15 None ?rc normal no frame_overrides]
  have "window_t_ctor frame_overrides rect16_ops 0 example_gui 15 None ?rc normal no
       = Some (window_t_init rect16_ops 0 example_gui 15 None ?rc normal no)
     \<and> IsInvalid (window_t_init rect16_ops 0 example_gui 15 None ?rc normal no) 15"
    by simp
  moreover
  from C6_ctor_amended [OF d, of 0 example_gui 15 "Some 13" ?out normal no frame_overrides]
    example_init_GetRect(2,4) example_Contain(2)
  have "window_t_ctor frame_overrides rect16_ops 0 example_gui 15 (Some 13) ?out normal no
       = Some (window_t_init rect16_ops 0 example_gui 15 (Some 13) ?out normal no)"
    by simp
  ultimately show ?thesis by simp
qed

text \<open>
  Claim C6 as stated fails: window 15 constructed with the frame 13 as parent and a
  rectangle outside it is not registered, and window 15 constructed inside the root 10
  is not registered when the root is a plain \<open>window_t\<close>, whose \<open>registerSubWin\<close> returns
  false.  In both cases the child list is the one before the construction.
\<close>

theorem C6_counterexample:
  "window_t_ctor frame_overrides rect16_ops 0 example_gui 15 (Some 13)
      \<lparr>rx = 200, ry = 200, rw = 10, rh = 10\<rparr> normal no
     = Some (window_t_init rect16_ops 0 example_gui 15 (Some 13)
               \<lparr>rx = 200, ry = 200, rw = 10, rh = 10\<rparr> normal no)
   \<and> subwins (window_t_init rect16_ops 0 example_gui 15 (Some 13)
        \<lparr>rx = 200, ry = 200, rw = 10, rh = 10\<rparr> normal no)
       = [(10, 11), (11, 12), (10, 13), (10, 14)]
   \<and> RegisterSubWin window_t_overrides rect16_ops
        (window_t_init rect16_ops 0 example_gui 15 (Some 10)
           \<lparr>rx = 20, ry = 200, rw = 30, rh = 30\<rparr> normal no) 10 15
       = Some (False, Screens_ResetTimeout (window_t_init rect16_ops 0 example_gui 15 (Some 10)
           \<lparr>rx = 20, ry = 200, rw = 30, rh = 30\<rparr> normal no))
   \<and> window_t_ctor window_t_overrides rect16_ops 0 example_gui 15 (Some 10)
        \<lparr>rx = 20, ry = 200, rw = 30, rh = 30\<rparr> normal no
       = Some (Screens_ResetTimeout (window_t_init rect16_ops 0 example_gui 15 (Some 10)
           \<lparr>rx = 20, ry = 200, rw = 30, rh = 30\<rparr> normal no))
   \<and> subwins (Screens_ResetTimeout (window_t_init rect16_ops 0 example_gui 15 (Some 10)
           \<lparr>rx = 20, ry = 200, rw = 30, rh = 30\<rparr> normal no))
       = [(10, 11), (11, 12), (10, 13), (10, 14)]"
proof -
  have h: "\<not> has_relative_subwins (the_flags (window_t_init rect16_ops 0 example_gui 15 (Some 10)
           \<lparr>rx = 20, ry = 200, rw = 30, rh = 30\<rparr> normal no) 10)"
    by (simp add: the_flags_def example_init example_wins_def example_window_def flags_zero_def)
  have x: "subwins example_gui = [(10, 11), (11, 12), (10, 13), (10, 14)]"
    by (simp add: example_gui_def)
  show ?thesis
    using h
    by (simp add: window_t_ctor_def RegisterSubWin_def example_init_GetRect example_Contain
        example_init(2) window_t_overrides_def registerSubWin_def Screens_ResetTimeout_def
        emit_def Let_def x)
qed

text \<open>Window 15 constructed with the policy \<open>yes\<close> and with the policy \<open>no\<close>.\<close>

theorem C10_witness:
  "window_t_ctor frame_overrides rect16_ops 0 example_gui 15 (Some 10)
      \<lparr>rx = 20, ry = 200, rw = 30, rh = 30\<rparr> normal yes \<noteq> None
   \<and> IsEnabled (the (window_t_ctor frame_overrides rect16_ops 0 example_gui 15 (Some 10)
        \<lparr>rx = 20, ry = 200, rw = 30, rh = 30\<rparr> normal yes)) 15
   \<and> window_t_ctor frame_overrides rect16_ops 0 example_gui 15 (Some 10)
      \<lparr>rx = 20, ry = 200, rw = 30, rh = 30\<rparr> normal no \<noteq> None
   \<and> \<not> IsEnabled (the (window_t_ctor frame_overrides rect16_ops 0 example_gui 15 (Some 10)
        \<lparr>rx = 20, ry = 200, rw = 30, rh = 30\<rparr> normal no)) 15"
proof -
  let ?rc = "\<lparr>rx = 20, ry = 200, rw = 30, rh = 30\<rparr>"
  have r: "root_within (Suc 0)
      (wins (window_t_init rect16_ops 0 example_gui 15 (Some 10) ?rc normal close)) 15" for close
    by (simp add: example_init example_wins_def example_window_def)
  from C10_ctor_enabled [of frame_overrides rect16_ops 0 example_gui 15 "Some 10" ?rc normal yes
      "Suc 0"] r [of yes]
  obtain s1 where "window_t_ctor frame_overrides rect16_ops 0 example_gui 15 (Some 10) ?rc normal yes
      = Some s1" "IsEnabled s1 15"
    by blast
  moreover
  from C10_ctor_enabled [of frame_overrides rect16_ops 0 example_gui 15 "Some 10" ?rc normal no
      "Suc 0"] r [of no]
  obtain s2 where "window_t_ctor frame_overrides rect16_ops 0 example_gui 15 (Some 10) ?rc normal no
      = Some s2" "\<not> IsEnabled s2 15"
    by (metis is_closed_on_click_t.distinct(1))
  ultimately show ?thesis by simp
qed

end
